theory Spec2Isabelle
  imports Main "HOL-Library.Word" "HOL-Library.Multiset"
begin

section \<open>Data model\<close>

subsection \<open>Library types the handlers work with\<close>

text \<open>
  \<^verbatim>\<open>uuid.UUID\<close> (github.com/google/uuid) is \<^verbatim>\<open>[16]byte\<close>: 128 bits.
\<close>

type_synonym uuid = "128 word"

text \<open>
  \<^verbatim>\<open>time.Time\<close> is kept by its calendar reading in its own location. \<^verbatim>\<open>t.Date()\<close>
  returns the year, month and day of that reading; \<^verbatim>\<open>time.Date(y, m, d, h, mi, s, ns, loc)\<close>
  builds the value with that reading. (Go normalises out-of-range arguments of
  \<^verbatim>\<open>time.Date\<close>; the only call of this program passes a year, month and day that
  \<^verbatim>\<open>Date()\<close> returned, and zeros, which are in range.)
\<close>

datatype Location = UTC | FixedZone string int

record Time =
  year :: int
  month :: int
  day :: int
  hour :: int
  minute :: int
  second :: int
  nsec :: int
  loc :: Location

definition Time_Date :: "Time \<Rightarrow> int \<times> int \<times> int" where
  "Time_Date t = (year t, month t, day t)"

definition time_Date :: "int \<Rightarrow> int \<Rightarrow> int \<Rightarrow> int \<Rightarrow> int \<Rightarrow> int \<Rightarrow> int \<Rightarrow> Location \<Rightarrow> Time" where
  "time_Date y m d h mi s ns l =
     \<lparr>year = y, month = m, day = d, hour = h, minute = mi, second = s, nsec = ns, loc = l\<rparr>"

text \<open>The zero value \<^verbatim>\<open>time.Time{}\<close>: January 1, year 1, 00:00:00 UTC.\<close>

definition zero_Time :: Time where
  "zero_Time = time_Date 1 1 1 0 0 0 0 UTC"

text \<open>\<^verbatim>\<open>pgtype.Timestamp\<close> (github.com/jackc/pgx/v5/pgtype), the fields the handlers use.\<close>

record Timestamp =
  Time :: Time
  Valid :: bool

subsection \<open>Rows of the store: \<^verbatim>\<open>pgstore.Trip\<close>, \<^verbatim>\<open>pgstore.Participant\<close>, \<^verbatim>\<open>pgstore.Activity\<close>\<close>

text \<open>
  The package \<^verbatim>\<open>journey/internal/pgstore\<close> is not among the sources. The rows carry the
  fields the handlers and the mailer read; the parent trip of a participant and of an
  activity is the \<^verbatim>\<open>TripID\<close> that \<^verbatim>\<open>GetParticipants\<close>, \<^verbatim>\<open>GetTripActivities\<close> and
  \<^verbatim>\<open>CreateActivityParams\<close> are keyed by.
\<close>

record Trip =
  ID :: uuid
  Destination :: string
  OwnerEmail :: string
  OwnerName :: string
  IsConfirmed :: bool
  StartsAt :: Timestamp
  EndsAt :: Timestamp

record Participant =
  ID :: uuid
  TripID :: uuid
  Email :: string
  IsConfirmed :: bool

record Activity =
  ID :: uuid
  TripID :: uuid
  Title :: string
  OccursAt :: Timestamp

subsection \<open>Response bodies of \<^verbatim>\<open>journey.gen.spec.go\<close>\<close>

record GetTripActivitiesResponseInnerArray =
  ID :: string
  OccursAt :: Time
  Title :: string

record GetTripActivitiesResponseOuterArray =
  Activities :: "GetTripActivitiesResponseInnerArray list"
  Date :: Time

record GetTripDetailsResponseTripObj =
  Destination :: string
  EndsAt :: Time
  ID :: string
  IsConfirmed :: bool
  StartsAt :: Time

text \<open>\<^verbatim>\<open>Name *string\<close> is a pointer that may be nil.\<close>

record GetTripParticipantsResponseArray =
  Email :: string
  ID :: string
  IsConfirmed :: bool
  Name :: "string option"

text \<open>
  What a \<^verbatim>\<open>Response\<close> carries in its \<^verbatim>\<open>body interface{}\<close>: nil, or one of the
  response structs. The structs with a single field (\<^verbatim>\<open>Error{Message}\<close>,
  \<^verbatim>\<open>CreateTripResponse{TripID}\<close>, \<^verbatim>\<open>GetTripDetailsResponse{Trip}\<close>,
  \<^verbatim>\<open>GetTripsResponse{Trips}\<close>, \<^verbatim>\<open>GetTripActivitiesResponse{Activities}\<close>,
  \<^verbatim>\<open>CreateActivityResponse{ActivityID}\<close>, \<^verbatim>\<open>GetTripParticipantsResponse{Participants}\<close>)
  are the constructors, applied to that field.
\<close>

datatype body =
    nil
  | Error string
  | CreateTripResponse string
  | GetTripDetailsResponse GetTripDetailsResponseTripObj
  | GetTripsResponse "GetTripDetailsResponseTripObj list"
  | GetTripActivitiesResponse "GetTripActivitiesResponseOuterArray list"
  | CreateActivityResponse string
  | GetTripParticipantsResponse "GetTripParticipantsResponseArray list"

record Response =
  body :: body
  Code :: int
  contentType :: string

text \<open>
  Every constructor \<^verbatim>\<open><Handler>JSON<code>Response(body)\<close> of \<^verbatim>\<open>journey.gen.spec.go\<close>
  returns \<^verbatim>\<open>&Response{body: body, Code: <code>, contentType: "application/json"}\<close>.
\<close>

definition JSONResponse :: "int \<Rightarrow> body \<Rightarrow> Response" where
  "JSONResponse code b = \<lparr>body = b, Code = code, contentType = ''application/json''\<rparr>"

subsection \<open>Request bodies of \<^verbatim>\<open>journey.gen.spec.go\<close> and parameters of the store\<close>

record CreateTripRequest =
  Destination :: string
  EmailsToInvite :: "string list"
  EndsAt :: Time
  OwnerEmail :: string
  OwnerName :: string
  StartsAt :: Time

record UpdateTripRequest =
  Destination :: string
  EndsAt :: Time
  StartsAt :: Time

record CreateActivityRequest =
  OccursAt :: Time
  Title :: string

record UpdateTripParams =
  ID :: uuid
  Destination :: string
  EndsAt :: Timestamp
  StartsAt :: Timestamp
  IsConfirmed :: bool

record CreateActivityParams =
  TripID :: uuid
  Title :: string
  OccursAt :: Timestamp

section \<open>The activity aggregation of \<^verbatim>\<open>GetTripsTripIDActivities\<close>\<close>

text \<open>
  The handler's local \<^verbatim>\<open>type Activity struct { Time time.Time; Amount *int }\<close>. Every
  \<^verbatim>\<open>Amount\<close> points to the \<^verbatim>\<open>amount\<close> variable of the iteration that appended the entry,
  so no two entries share a counter, and \<^verbatim>\<open>*date.Amount++\<close> on the loop's copy of an entry
  is an increment of that entry's own counter: the counter is kept in the entry.
\<close>

record DateItem =
  Time :: Time
  Amount :: int

datatype panic = NotImplemented | MakesliceLenOutOfRange | MakesliceCapOutOfRange | IndexOutOfRange

text \<open>
  The comparison \<^verbatim>\<open>itemYear == activityYear && itemMonth == activityMonth && itemDay == activityDay\<close>
  on the results of two \<^verbatim>\<open>Date()\<close> calls, written out three times in the handler.
\<close>

definition same_date :: "Time \<Rightarrow> Time \<Rightarrow> bool" where
  "same_date item activity =
     (case Time_Date item of (itemYear, itemMonth, itemDay) \<Rightarrow>
      case Time_Date activity of (activityYear, activityMonth, activityDay) \<Rightarrow>
        itemYear = activityYear \<and> itemMonth = activityMonth \<and> itemDay = activityDay)"

text \<open>
  One iteration of the first loop (\<^verbatim>\<open>for _, activity := range activities\<close>): a date not
  yet in \<^verbatim>\<open>differentDates\<close> is appended at midnight UTC with amount 1 and \<^verbatim>\<open>qtd\<close> is
  incremented; otherwise every entry with the activity's date has its amount incremented.
\<close>

definition collect_date :: "Activity \<Rightarrow> DateItem list \<times> int \<Rightarrow> DateItem list \<times> int" where
  "collect_date activity st =
     (case st of (differentDates, qtd) \<Rightarrow>
        if \<not> list_ex (\<lambda>item. same_date (DateItem.Time item) (Timestamp.Time (Activity.OccursAt activity)))
               differentDates
        then (case Time_Date (Timestamp.Time (Activity.OccursAt activity)) of
                (itemYear, itemMonth, itemDay) \<Rightarrow>
                  (differentDates @
                     [\<lparr>DateItem.Time = time_Date itemYear itemMonth itemDay 0 0 0 0 UTC, Amount = 1\<rparr>],
                   qtd + 1))
        else (map (\<lambda>date.
                     if same_date (DateItem.Time date) (Timestamp.Time (Activity.OccursAt activity))
                     then date\<lparr>Amount := Amount date + 1\<rparr> else date)
                  differentDates,
              qtd))"

fun collect_dates :: "Activity list \<Rightarrow> DateItem list \<times> int \<Rightarrow> DateItem list \<times> int" where
  "collect_dates [] st = st"
| "collect_dates (activity # activities) st = collect_dates activities (collect_date activity st)"

text \<open>
  The inner loop of the second phase: the activities of the item's date, in the order of
  \<^verbatim>\<open>activities\<close>, each as \<^verbatim>\<open>{ID: activity.ID.String(), Title, OccursAt: activity.OccursAt.Time}\<close>.
  \<^verbatim>\<open>String\<close> is the method of the uuid library.
\<close>

definition inner_response :: "(uuid \<Rightarrow> string) \<Rightarrow> Activity \<Rightarrow> GetTripActivitiesResponseInnerArray" where
  "inner_response String activity =
     \<lparr>GetTripActivitiesResponseInnerArray.ID = String (Activity.ID activity),
      OccursAt = Timestamp.Time (Activity.OccursAt activity),
      Title = Activity.Title activity\<rparr>"

definition activities_of_date ::
  "(uuid \<Rightarrow> string) \<Rightarrow> Activity list \<Rightarrow> DateItem \<Rightarrow> GetTripActivitiesResponseInnerArray list" where
  "activities_of_date String activities item =
     map (inner_response String)
       (filter (\<lambda>activity. same_date (DateItem.Time item) (Timestamp.Time (Activity.OccursAt activity)))
          activities)"

text \<open>
  The second loop (\<^verbatim>\<open>for i, item := range differentDates\<close>), from index \<open>i\<close> on.
  \<^verbatim>\<open>make([]T, 0, *differentDates[i].Amount)\<close> panics on a negative capacity, and
  \<^verbatim>\<open>activitiesResponse[i] = ...\<close> panics when \<open>i\<close> is not an index of the slice.
\<close>

fun fill_response ::
  "(uuid \<Rightarrow> string) \<Rightarrow> Activity list \<Rightarrow> nat \<Rightarrow> DateItem list \<Rightarrow>
   GetTripActivitiesResponseOuterArray list \<Rightarrow> panic + GetTripActivitiesResponseOuterArray list" where
  "fill_response String activities i [] activitiesResponse = Inr activitiesResponse"
| "fill_response String activities i (item # items) activitiesResponse =
     (if Amount item < 0 then Inl MakesliceCapOutOfRange
      else if \<not> i < length activitiesResponse then Inl IndexOutOfRange
      else fill_response String activities (i + 1) items
             (activitiesResponse
                [i := \<lparr>Activities = activities_of_date String activities item,
                       Date = DateItem.Time item\<rparr>]))"

text \<open>The zero value of \<^verbatim>\<open>GetTripActivitiesResponseOuterArray\<close>, with which \<^verbatim>\<open>make\<close> fills.\<close>

definition zero_OuterArray :: GetTripActivitiesResponseOuterArray where
  "zero_OuterArray = \<lparr>Activities = [], Date = zero_Time\<rparr>"

text \<open>
  Lines 229 to 279 of the handler: both loops, from \<^verbatim>\<open>var qtd int\<close> and the empty
  \<^verbatim>\<open>differentDates\<close> to the filled \<^verbatim>\<open>activitiesResponse\<close>.
\<close>

definition aggregate_activities ::
  "(uuid \<Rightarrow> string) \<Rightarrow> Activity list \<Rightarrow> panic + GetTripActivitiesResponseOuterArray list" where
  "aggregate_activities String activities =
     (case collect_dates activities ([], 0) of (differentDates, qtd) \<Rightarrow>
        if qtd < 0 then Inl MakesliceLenOutOfRange
        else fill_response String activities 0 differentDates (replicate (nat qtd) zero_OuterArray))"

subsection \<open>The aggregation in the words of the specification\<close>

text \<open>The calendar date of an activity, and the distinct values of a list in the order of their first occurrence.\<close>

definition activity_date :: "Activity \<Rightarrow> int \<times> int \<times> int" where
  "activity_date activity = Time_Date (Timestamp.Time (Activity.OccursAt activity))"

fun first_seen :: "'a list \<Rightarrow> 'a list" where
  "first_seen [] = []"
| "first_seen (x # xs) = x # first_seen (filter (\<lambda>y. y \<noteq> x) xs)"

definition midnight_UTC :: "int \<times> int \<times> int \<Rightarrow> Time" where
  "midnight_UTC ymd = (case ymd of (y, m, d) \<Rightarrow> time_Date y m d 0 0 0 0 UTC)"

text \<open>
  An ordered-by-first-occurrence sequence of day-buckets, each holding the calendar date
  at midnight UTC and the sub-sequence of the activities on that date, in their original
  relative order.
\<close>

definition day_buckets_spec ::
  "(uuid \<Rightarrow> string) \<Rightarrow> Activity list \<Rightarrow> GetTripActivitiesResponseOuterArray list" where
  "day_buckets_spec String activities =
     map (\<lambda>ymd. \<lparr>Activities = map (inner_response String)
                                 (filter (\<lambda>activity. activity_date activity = ymd) activities),
                  Date = midnight_UTC ymd\<rparr>)
       (first_seen (map activity_date activities))"

text \<open>The position of the first activity of a list that falls on a given date.\<close>

definition first_position :: "Activity list \<Rightarrow> int \<times> int \<times> int \<Rightarrow> nat" where
  "first_position activities ymd = length (takeWhile (\<lambda>activity. activity_date activity \<noteq> ymd) activities)"

section \<open>The API and its handlers\<close>

subsection \<open>The \<^verbatim>\<open>store\<close> and \<^verbatim>\<open>mailer\<close> interfaces, and the \<^verbatim>\<open>API\<close> struct\<close>

text \<open>
  An \<^verbatim>\<open>error\<close> returned by the store is \<^verbatim>\<open>pgx.ErrNoRows\<close> or some other error; the
  handlers distinguish the two with \<^verbatim>\<open>errors.Is(err, pgx.ErrNoRows)\<close>.
\<close>

datatype store_error = ErrNoRows | ErrOther string

text \<open>
  The methods of \<^verbatim>\<open>type store interface\<close>, over a state \<open>'s\<close> of the storage behind it.
  A read returns its result; a write returns its result and the state it leaves. The
  \<^verbatim>\<open>context.Context\<close> and the \<^verbatim>\<open>*pgxpool.Pool\<close> arguments are not kept.
\<close>

record 's store =
  CreateTrip :: "'s \<Rightarrow> CreateTripRequest \<Rightarrow> (store_error + uuid) \<times> 's"
  GetTrip :: "'s \<Rightarrow> uuid \<Rightarrow> store_error + Trip"
  GetAllTrips :: "'s \<Rightarrow> store_error + Trip list"
  UpdateTrip :: "'s \<Rightarrow> UpdateTripParams \<Rightarrow> store_error option \<times> 's"
  GetParticipant :: "'s \<Rightarrow> uuid \<Rightarrow> store_error + Participant"
  GetParticipants :: "'s \<Rightarrow> uuid \<Rightarrow> store_error + Participant list"
  ConfirmParticipant :: "'s \<Rightarrow> uuid \<Rightarrow> store_error option \<times> 's"
  GetTripActivities :: "'s \<Rightarrow> uuid \<Rightarrow> store_error + Activity list"
  CreateActivity :: "'s \<Rightarrow> CreateActivityParams \<Rightarrow> (store_error + uuid) \<times> 's"

text \<open>
  The methods of \<^verbatim>\<open>type mailer interface\<close>: each returns an \<^verbatim>\<open>error\<close>, \<open>None\<close> for nil.
  A mailer reads the storage when it runs.
\<close>

record 's mailer =
  SendConfirmTripEmailToTripOwner :: "'s \<Rightarrow> uuid \<Rightarrow> string option"
  SendConfirmTripEmailToTripParticipants :: "'s \<Rightarrow> uuid \<Rightarrow> string option"

text \<open>
  \<^verbatim>\<open>validator.Struct\<close> (github.com/go-playground/validator) on each of the three request
  bodies: an \<^verbatim>\<open>error\<close>, \<open>None\<close> for nil.
\<close>

record validator =
  Struct_CreateTripRequest :: "CreateTripRequest \<Rightarrow> string option"
  Struct_UpdateTripRequest :: "UpdateTripRequest \<Rightarrow> string option"
  Struct_CreateActivityRequest :: "CreateActivityRequest \<Rightarrow> string option"

text \<open>
  \<^verbatim>\<open>type API struct\<close>: the store, the validator and the mailer. Its \<^verbatim>\<open>pool\<close> is the storage
  state the handlers are given; its \<^verbatim>\<open>logger\<close> is the list of messages a handler returns.
  The handlers' variable \<^verbatim>\<open>id\<close> is written \<open>id'\<close>, and \<^verbatim>\<open>body\<close> \<open>body'\<close>.
  The record also holds the two functions of the uuid library the handlers call:
  \<^verbatim>\<open>uuid.Parse\<close> (\<open>None\<close> when it returns an error) and \<^verbatim>\<open>UUID.String\<close>.
\<close>

record 's API =
  store :: "'s store"
  validator :: validator
  mailer :: "'s mailer"
  uuid_Parse :: "string \<Rightarrow> uuid option"
  uuid_String :: "uuid \<Rightarrow> string"

text \<open>
  What \<^verbatim>\<open>json.NewDecoder(r.Body).Decode(&body)\<close> gives for a request: \<open>Inl\<close> the text of
  its error, or \<open>Inr\<close> the decoded body.
\<close>

type_synonym 'b decoded = "string + 'b"

text \<open>
  A handler returns its response, the storage state it leaves, and the messages of its
  \<^verbatim>\<open>api.logger.Error\<close> calls. The goroutine a handler starts with \<^verbatim>\<open>go func() { ... }()\<close>
  is run on the state the handler leaves; nothing of it reaches the response, and its
  \<^verbatim>\<open>api.logger.Error\<close> message, if any, is the last of the list.
\<close>

type_synonym 's outcome = "Response \<times> 's \<times> string list"

subsection \<open>\<^verbatim>\<open>PatchParticipantsParticipantIDConfirm\<close>\<close>

definition PatchParticipantsParticipantIDConfirm :: "'s API \<Rightarrow> 's \<Rightarrow> string \<Rightarrow> 's outcome" where
  "PatchParticipantsParticipantIDConfirm api s participantID =
     (case uuid_Parse api participantID of
        None \<Rightarrow> (JSONResponse 400 (Error ''Invalid participant ID''), s, [])
      | Some id' \<Rightarrow>
          (case GetParticipant (store api) s id' of
             Inl err \<Rightarrow>
               if err = ErrNoRows
               then (JSONResponse 400 (Error ''Participant not found''), s, [])
               else (JSONResponse 400 (Error ''Something went wrong, try again''), s,
                     [''Failed to get participant''])
           | Inr particiapant \<Rightarrow>
               if Participant.IsConfirmed particiapant
               then (JSONResponse 400 (Error ''Participant already confirmed''), s, [])
               else (case ConfirmParticipant (store api) s id' of
                       (Some err, s') \<Rightarrow>
                         (JSONResponse 400 (Error ''Something went wrong, try again''), s',
                          [''Failed to confirm participant''])
                     | (None, s') \<Rightarrow> (JSONResponse 204 nil, s', []))))"

subsection \<open>\<^verbatim>\<open>PostTrips\<close>\<close>

definition PostTrips :: "'s API \<Rightarrow> 's \<Rightarrow> CreateTripRequest decoded \<Rightarrow> 's outcome" where
  "PostTrips api s r =
     (case r of
        Inl err \<Rightarrow> (JSONResponse 400 (Error (''Invalid JSON: '' @ err)), s, [])
      | Inr body' \<Rightarrow>
          (case Struct_CreateTripRequest (validator api) body' of
             Some err \<Rightarrow> (JSONResponse 400 (Error (''Invalid request body: '' @ err)), s, [])
           | None \<Rightarrow>
               (case CreateTrip (store api) s body' of
                  (Inl err, s') \<Rightarrow>
                    (JSONResponse 400 (Error ''Something went wrong, try again''), s', [])
                | (Inr tripID, s') \<Rightarrow>
                    (JSONResponse 201 (CreateTripResponse (uuid_String api tripID)), s',
                     (case SendConfirmTripEmailToTripOwner (mailer api) s' tripID of
                        Some err \<Rightarrow> [''Failed to send email on PostTrips'']
                      | None \<Rightarrow> [])))))"

subsection \<open>\<^verbatim>\<open>GetTrips\<close> and \<^verbatim>\<open>GetTripsTripID\<close>\<close>

definition trip_object :: "'s API \<Rightarrow> Trip \<Rightarrow> GetTripDetailsResponseTripObj" where
  "trip_object api trip =
     \<lparr>GetTripDetailsResponseTripObj.Destination = Trip.Destination trip,
      EndsAt = Timestamp.Time (Trip.EndsAt trip),
      ID = uuid_String api (Trip.ID trip),
      IsConfirmed = Trip.IsConfirmed trip,
      StartsAt = Timestamp.Time (Trip.StartsAt trip)\<rparr>"

definition GetTrips :: "'s API \<Rightarrow> 's \<Rightarrow> 's outcome" where
  "GetTrips api s =
     (case GetAllTrips (store api) s of
        Inl err \<Rightarrow>
          if err = ErrNoRows
          then (JSONResponse 400 (Error ''No trips found''), s, [])
          else (JSONResponse 400 (Error ''Something went wrong, try again''), s, [''Failed to get trips''])
      | Inr trips \<Rightarrow> (JSONResponse 200 (GetTripsResponse (map (trip_object api) trips)), s, []))"

definition GetTripsTripID :: "'s API \<Rightarrow> 's \<Rightarrow> string \<Rightarrow> 's outcome" where
  "GetTripsTripID api s tripID =
     (case uuid_Parse api tripID of
        None \<Rightarrow> (JSONResponse 400 (Error ''Invalid trip ID''), s, [])
      | Some id' \<Rightarrow>
          (case GetTrip (store api) s id' of
             Inl err \<Rightarrow>
               if err = ErrNoRows
               then (JSONResponse 400 (Error ''Trip not found''), s, [])
               else (JSONResponse 400 (Error ''Something went wrong, try again''), s, [''Failed to get trip''])
           | Inr trip \<Rightarrow> (JSONResponse 200 (GetTripDetailsResponse (trip_object api trip)), s, [])))"

subsection \<open>\<^verbatim>\<open>PutTripsTripID\<close>\<close>

definition PutTripsTripID :: "'s API \<Rightarrow> 's \<Rightarrow> string \<Rightarrow> UpdateTripRequest decoded \<Rightarrow> 's outcome" where
  "PutTripsTripID api s tripID r =
     (case uuid_Parse api tripID of
        None \<Rightarrow> (JSONResponse 400 (Error ''Invalid trip ID''), s, [])
      | Some id' \<Rightarrow>
          (case GetTrip (store api) s id' of
             Inl err \<Rightarrow>
               if err = ErrNoRows
               then (JSONResponse 400 (Error ''Trip not found''), s, [])
               else (JSONResponse 400 (Error ''Something went wrong, try again''), s, [''Failed to get trip''])
           | Inr trip \<Rightarrow>
               (case r of
                  Inl err \<Rightarrow> (JSONResponse 400 (Error (''Invalid JSON: '' @ err)), s, [])
                | Inr body' \<Rightarrow>
                    (case Struct_UpdateTripRequest (validator api) body' of
                       Some err \<Rightarrow>
                         (JSONResponse 400 (Error (''Invalid request body: '' @ err)), s, [])
                     | None \<Rightarrow>
                         (case UpdateTrip (store api) s
                                 \<lparr>UpdateTripParams.ID = id',
                                  Destination = UpdateTripRequest.Destination body',
                                  EndsAt = \<lparr>Timestamp.Time = UpdateTripRequest.EndsAt body', Valid = True\<rparr>,
                                  StartsAt = \<lparr>Timestamp.Time = UpdateTripRequest.StartsAt body', Valid = True\<rparr>,
                                  IsConfirmed = Trip.IsConfirmed trip\<rparr> of
                            (Some err, s') \<Rightarrow>
                              (JSONResponse 400 (Error ''Something went wrong, try again''), s',
                               [''Failed to update trip''])
                          | (None, s') \<Rightarrow> (JSONResponse 204 nil, s', []))))))"

subsection \<open>\<^verbatim>\<open>GetTripsTripIDActivities\<close> and \<^verbatim>\<open>PostTripsTripIDActivities\<close>\<close>

text \<open>A panic of the aggregation leaves the handler without a response.\<close>

definition GetTripsTripIDActivities ::
  "'s API \<Rightarrow> 's \<Rightarrow> string \<Rightarrow> (panic + Response) \<times> 's \<times> string list" where
  "GetTripsTripIDActivities api s tripID =
     (case uuid_Parse api tripID of
        None \<Rightarrow> (Inr (JSONResponse 400 (Error ''Invalid trip ID'')), s, [])
      | Some id' \<Rightarrow>
          (case GetTripActivities (store api) s id' of
             Inl err \<Rightarrow>
               if err = ErrNoRows
               then (Inr (JSONResponse 400 (Error ''Activities not found'')), s, [])
               else (Inr (JSONResponse 400 (Error ''Something went wrong, try again'')), s,
                     [''Failed to get activities''])
           | Inr activities \<Rightarrow>
               (case aggregate_activities (uuid_String api) activities of
                  Inl p \<Rightarrow> (Inl p, s, [])
                | Inr activitiesResponse \<Rightarrow>
                    (Inr (JSONResponse 200 (GetTripActivitiesResponse activitiesResponse)), s, []))))"

definition PostTripsTripIDActivities ::
  "'s API \<Rightarrow> 's \<Rightarrow> string \<Rightarrow> CreateActivityRequest decoded \<Rightarrow> 's outcome" where
  "PostTripsTripIDActivities api s tripID r =
     (case uuid_Parse api tripID of
        None \<Rightarrow> (JSONResponse 400 (Error ''Invalid trip ID''), s, [])
      | Some id' \<Rightarrow>
          (case r of
             Inl err \<Rightarrow> (JSONResponse 400 (Error (''Invalid JSON: '' @ err)), s, [])
           | Inr body' \<Rightarrow>
               (case Struct_CreateActivityRequest (validator api) body' of
                  Some err \<Rightarrow> (JSONResponse 400 (Error (''Invalid request body: '' @ err)), s, [])
                | None \<Rightarrow>
                    (case CreateActivity (store api) s
                            \<lparr>CreateActivityParams.TripID = id',
                             Title = CreateActivityRequest.Title body',
                             OccursAt = \<lparr>Timestamp.Time = CreateActivityRequest.OccursAt body', Valid = True\<rparr>\<rparr> of
                       (Inl err, s') \<Rightarrow>
                         (JSONResponse 400 (Error ''Something went wrong, try again''), s',
                          [''Failed to create activity''])
                     | (Inr activityID, s') \<Rightarrow>
                         (JSONResponse 201 (CreateActivityResponse (uuid_String api activityID)), s', [])))))"

subsection \<open>\<^verbatim>\<open>GetTripsTripIDConfirm\<close>\<close>

definition GetTripsTripIDConfirm :: "'s API \<Rightarrow> 's \<Rightarrow> string \<Rightarrow> 's outcome" where
  "GetTripsTripIDConfirm api s tripID =
     (case uuid_Parse api tripID of
        None \<Rightarrow> (JSONResponse 400 (Error ''Invalid trip ID''), s, [])
      | Some id' \<Rightarrow>
          (case GetTrip (store api) s id' of
             Inl err \<Rightarrow>
               if err = ErrNoRows
               then (JSONResponse 400 (Error ''Trip not found''), s, [])
               else (JSONResponse 400 (Error ''Something went wrong, try again''), s, [''Failed to get trip''])
           | Inr trip \<Rightarrow>
               if Trip.IsConfirmed trip
               then (JSONResponse 400 (Error ''Trip already confirmed''), s, [])
               else (case UpdateTrip (store api) s
                            \<lparr>UpdateTripParams.ID = id',
                             Destination = Trip.Destination trip,
                             EndsAt = Trip.EndsAt trip,
                             StartsAt = Trip.StartsAt trip,
                             IsConfirmed = True\<rparr> of
                       (Some err, s') \<Rightarrow>
                         (JSONResponse 400 (Error ''Something went wrong, try again''), s',
                          [''Failed to confirm trip''])
                     | (None, s') \<Rightarrow>
                         (JSONResponse 204 nil, s',
                          (case SendConfirmTripEmailToTripParticipants (mailer api) s' id' of
                             Some err \<Rightarrow> [''Failed to send email on GetTripsTripIDConfirm'']
                           | None \<Rightarrow> [])))))"

subsection \<open>\<^verbatim>\<open>GetTripsTripIDParticipants\<close>\<close>

text \<open>The handler leaves \<^verbatim>\<open>Name\<close> unset: nil.\<close>

definition participant_object :: "'s API \<Rightarrow> Participant \<Rightarrow> GetTripParticipantsResponseArray" where
  "participant_object api participant =
     \<lparr>GetTripParticipantsResponseArray.Email = Participant.Email participant,
      ID = uuid_String api (Participant.ID participant),
      IsConfirmed = Participant.IsConfirmed participant,
      Name = None\<rparr>"

definition GetTripsTripIDParticipants :: "'s API \<Rightarrow> 's \<Rightarrow> string \<Rightarrow> 's outcome" where
  "GetTripsTripIDParticipants api s tripID =
     (case uuid_Parse api tripID of
        None \<Rightarrow> (JSONResponse 400 (Error ''Invalid trip ID''), s, [])
      | Some id' \<Rightarrow>
          (case GetTrip (store api) s id' of
             Inl err \<Rightarrow>
               if err = ErrNoRows
               then (JSONResponse 400 (Error ''Trip not found''), s, [])
               else (JSONResponse 400 (Error ''Something went wrong, try again''), s, [''Failed to get trip''])
           | Inr trip \<Rightarrow>
               (case GetParticipants (store api) s (Trip.ID trip) of
                  Inl err \<Rightarrow>
                    (JSONResponse 400 (Error ''Something went wrong, try again''), s,
                     [''Failed to get participants''])
                | Inr participants \<Rightarrow>
                    (JSONResponse 200
                       (GetTripParticipantsResponse (map (participant_object api) participants)),
                     s, []))))"

section \<open>The mailer of \<^verbatim>\<open>mailpit.go\<close>\<close>

text \<open>
  A message of github.com/wneessen/go-mail as the mailer fills it. The body is the
  \<^verbatim>\<open>fmt.Sprintf\<close> of a fixed text with the owner's name, the destination and
  \<^verbatim>\<open>trip.StartsAt.Time.Format(time.DateOnly)\<close>; it is kept as which of the two texts it
  is, with the name, the destination and the date that is formatted.
\<close>

datatype mail_body =
    TripOwnerBody string string "int \<times> int \<times> int"
  | TripParticipantBody string string "int \<times> int \<times> int"

record Msg =
  From :: string
  To :: string
  Subject :: string
  BodyString :: mail_body

text \<open>
  The mail library and the network behind it: the error of \<^verbatim>\<open>msg.From\<close> and \<^verbatim>\<open>msg.To\<close> on an
  address, the error of \<^verbatim>\<open>mail.NewClient("mailpit", ...)\<close>, and the error of
  \<^verbatim>\<open>client.DialAndSend(msg)\<close>; \<open>None\<close> for nil.
\<close>

record smtp =
  address_error :: "string \<Rightarrow> string option"
  NewClient_error :: "string option"
  DialAndSend :: "Msg \<Rightarrow> string option"

definition store_error_text :: "store_error \<Rightarrow> string" where
  "store_error_text err = (case err of ErrNoRows \<Rightarrow> ''no rows in result set'' | ErrOther e \<Rightarrow> e)"

text \<open>
  Each method returns its \<^verbatim>\<open>error\<close> and the messages it handed to \<^verbatim>\<open>DialAndSend\<close>, in
  the order of the calls. \<^verbatim>\<open>type Mailpit struct { store store }\<close> uses \<^verbatim>\<open>GetTrip\<close> and
  \<^verbatim>\<open>GetParticipants\<close> of the store.
\<close>

definition Mailpit_SendConfirmTripEmailToTripOwner ::
  "'s store \<Rightarrow> smtp \<Rightarrow> 's \<Rightarrow> uuid \<Rightarrow> string option \<times> Msg list" where
  "Mailpit_SendConfirmTripEmailToTripOwner st lib s tripID =
     (case GetTrip st s tripID of
        Inl err \<Rightarrow>
          (Some (''mailpit: failed to get trip for SendConfirmTripEmailToTripOwner: '' @ store_error_text err), [])
      | Inr trip \<Rightarrow>
          (case address_error lib ''mailpit@journey.com'' of
             Some err \<Rightarrow>
               (Some (''mailpit: failed to set From in email for SendConfirmTripEmailToTripOwner: '' @ err), [])
           | None \<Rightarrow>
               (case address_error lib (Trip.OwnerEmail trip) of
                  Some err \<Rightarrow>
                    (Some (''mailpit: failed to set To in email for SendConfirmTripEmailToTripOwner: '' @ err), [])
                | None \<Rightarrow>
                    (case NewClient_error lib of
                       Some err \<Rightarrow>
                         (Some (''mailpit: failed to create email client for SendConfirmTripEmailToTripOwner: '' @ err), [])
                     | None \<Rightarrow>
                         (let msg = \<lparr>From = ''mailpit@journey.com'', To = Trip.OwnerEmail trip,
                                     Subject = ''Confirm your trip'',
                                     BodyString = TripOwnerBody (Trip.OwnerName trip) (Trip.Destination trip)
                                                    (Time_Date (Timestamp.Time (Trip.StartsAt trip)))\<rparr>
                          in (case DialAndSend lib msg of
                                Some err \<Rightarrow>
                                  (Some (''mailpit: failed to send email for SendConfirmTripEmailToTripOwner: '' @ err), [msg])
                              | None \<Rightarrow> (None, [msg])))))))"

text \<open>The message the loop of \<^verbatim>\<open>SendConfirmTripEmailToTripParticipants\<close> builds for a participant.\<close>

definition participant_msg :: "Trip \<Rightarrow> Participant \<Rightarrow> Msg" where
  "participant_msg trip participant =
     \<lparr>From = ''mailpit@journey.com'', To = Participant.Email participant,
      Subject = ''Confirm your trip'',
      BodyString = TripParticipantBody (Trip.OwnerName trip) (Trip.Destination trip)
                     (Time_Date (Timestamp.Time (Trip.StartsAt trip)))\<rparr>"

text \<open>
  The loop \<^verbatim>\<open>for _, participant := range participants\<close>: every failure is a
  \<^verbatim>\<open>return fmt.Errorf(...)\<close> from inside the loop.
\<close>

fun send_to_participants :: "smtp \<Rightarrow> Trip \<Rightarrow> Participant list \<Rightarrow> string option \<times> Msg list" where
  "send_to_participants lib trip [] = (None, [])"
| "send_to_participants lib trip (participant # participants) =
     (case address_error lib ''mailpit@journey.com'' of
        Some err \<Rightarrow>
          (Some (''mailpit: failed to set From in email for SendConfirmTripEmailToTripParticipants: '' @ err), [])
      | None \<Rightarrow>
          (case address_error lib (Participant.Email participant) of
             Some err \<Rightarrow>
               (Some (''mailpit: failed to set To in email for SendConfirmTripEmailToTripParticipants: '' @ err), [])
           | None \<Rightarrow>
               (case NewClient_error lib of
                  Some err \<Rightarrow>
                    (Some (''mailpit: failed to create email client for SendConfirmTripEmailToTripParticipants: '' @ err), [])
                | None \<Rightarrow>
                    (case DialAndSend lib (participant_msg trip participant) of
                       Some err \<Rightarrow>
                         (Some (''mailpit: failed to send email for SendConfirmTripEmailToTripParticipants: '' @ err),
                          [participant_msg trip participant])
                     | None \<Rightarrow>
                         (case send_to_participants lib trip participants of
                            (err, msgs) \<Rightarrow> (err, participant_msg trip participant # msgs))))))"

definition Mailpit_SendConfirmTripEmailToTripParticipants ::
  "'s store \<Rightarrow> smtp \<Rightarrow> 's \<Rightarrow> uuid \<Rightarrow> string option \<times> Msg list" where
  "Mailpit_SendConfirmTripEmailToTripParticipants st lib s tripID =
     (case GetTrip st s tripID of
        Inl err \<Rightarrow>
          (Some (''mailpit: failed to get trip for SendConfirmTripEmailToTripParticipants: '' @ store_error_text err), [])
      | Inr trip \<Rightarrow>
          (case GetParticipants st s tripID of
             Inl err \<Rightarrow>
               (Some (''mailpit: failed to get participants for SendConfirmTripEmailToTripParticipants: ''
                      @ store_error_text err), [])
           | Inr participants \<Rightarrow> send_to_participants lib trip participants))"

text \<open>\<^verbatim>\<open>Mailpit\<close> as the \<^verbatim>\<open>mailer\<close> of the API: the \<^verbatim>\<open>error\<close> of each method.\<close>

definition Mailpit :: "'s store \<Rightarrow> smtp \<Rightarrow> 's mailer" where
  "Mailpit st lib =
     \<lparr>SendConfirmTripEmailToTripOwner = (\<lambda>s tripID. fst (Mailpit_SendConfirmTripEmailToTripOwner st lib s tripID)),
      SendConfirmTripEmailToTripParticipants =
        (\<lambda>s tripID. fst (Mailpit_SendConfirmTripEmailToTripParticipants st lib s tripID))\<rparr>"

text \<open>
  Whether the loop gets through a participant: both addresses are accepted, the client
  is created and \<^verbatim>\<open>DialAndSend\<close> returns nil. And whether it gets as far as
  \<^verbatim>\<open>DialAndSend\<close> for that participant.
\<close>

definition dialled :: "smtp \<Rightarrow> Participant \<Rightarrow> bool" where
  "dialled lib participant =
     (address_error lib ''mailpit@journey.com'' = None \<and>
      address_error lib (Participant.Email participant) = None \<and>
      NewClient_error lib = None)"

definition delivered :: "smtp \<Rightarrow> Trip \<Rightarrow> Participant \<Rightarrow> bool" where
  "delivered lib trip participant =
     (dialled lib participant \<and> DialAndSend lib (participant_msg trip participant) = None)"

section \<open>The storage behind the \<^verbatim>\<open>store\<close> interface\<close>

text \<open>
  Modelled from the spec: the package \<^verbatim>\<open>journey/internal/pgstore\<close>, whose \<^verbatim>\<open>pgstore.New(pool)\<close>
  is the store of the API, is not among the sources. The specification treats the storage
  as a transactional key-value-by-ID store of Trip, Participant and Activity entities.
  Its tables are lists of rows; \<open>next_id\<close> counts the identifiers drawn so far.
\<close>

record pg =
  trip_rows :: "Trip list"
  participant_rows :: "Participant list"
  activity_rows :: "Activity list"
  next_id :: nat

definition empty_pg :: pg where
  "empty_pg = \<lparr>trip_rows = [], participant_rows = [], activity_rows = [], next_id = 0\<rparr>"

text \<open>
  Modelled from the spec: the identifier generator of the storage, which is not among the
  sources ("allocates a new Trip id"): the \<open>n\<close>-th identifier drawn.
\<close>

definition new_uuid :: "nat \<Rightarrow> uuid" where
  "new_uuid n = of_nat n"

text \<open>
  Modelled from the spec: \<^verbatim>\<open>pgstore.GetTrip\<close>, \<^verbatim>\<open>GetAllTrips\<close>, \<^verbatim>\<open>GetParticipant\<close>,
  \<^verbatim>\<open>GetParticipants\<close> and \<^verbatim>\<open>GetTripActivities\<close>, which are not among the sources.
  "All id lookups fail with a distinguishable NotFound signal."
\<close>

definition pg_GetTrip :: "pg \<Rightarrow> uuid \<Rightarrow> store_error + Trip" where
  "pg_GetTrip s id' =
     (case find (\<lambda>t. Trip.ID t = id') (trip_rows s) of None \<Rightarrow> Inl ErrNoRows | Some t \<Rightarrow> Inr t)"

definition pg_GetAllTrips :: "pg \<Rightarrow> store_error + Trip list" where
  "pg_GetAllTrips s = Inr (trip_rows s)"

definition pg_GetParticipant :: "pg \<Rightarrow> uuid \<Rightarrow> store_error + Participant" where
  "pg_GetParticipant s participantID =
     (case find (\<lambda>p. Participant.ID p = participantID) (participant_rows s) of
        None \<Rightarrow> Inl ErrNoRows
      | Some p \<Rightarrow> Inr p)"

definition pg_GetParticipants :: "pg \<Rightarrow> uuid \<Rightarrow> store_error + Participant list" where
  "pg_GetParticipants s tripID = Inr (filter (\<lambda>p. Participant.TripID p = tripID) (participant_rows s))"

definition pg_GetTripActivities :: "pg \<Rightarrow> uuid \<Rightarrow> store_error + Activity list" where
  "pg_GetTripActivities s tripID = Inr (filter (\<lambda>a. Activity.TripID a = tripID) (activity_rows s))"

text \<open>
  Modelled from the spec: \<^verbatim>\<open>pgstore.UpdateTrip\<close>, which is not among the sources
  (\<^verbatim>\<open>ReplaceTripFields\<close>: "replace mutable Trip fields"). It writes the four fields of
  \<^verbatim>\<open>UpdateTripParams\<close> into the trip of that id.
\<close>

definition pg_UpdateTrip :: "pg \<Rightarrow> UpdateTripParams \<Rightarrow> store_error option \<times> pg" where
  "pg_UpdateTrip s arg =
     (if list_ex (\<lambda>t. Trip.ID t = UpdateTripParams.ID arg) (trip_rows s)
      then (None,
            s\<lparr>trip_rows :=
                map (\<lambda>t. if Trip.ID t = UpdateTripParams.ID arg
                          then t\<lparr>Trip.Destination := UpdateTripParams.Destination arg,
                                 Trip.EndsAt := UpdateTripParams.EndsAt arg,
                                 Trip.StartsAt := UpdateTripParams.StartsAt arg,
                                 Trip.IsConfirmed := UpdateTripParams.IsConfirmed arg\<rparr>
                          else t)
                  (trip_rows s)\<rparr>)
      else (Some ErrNoRows, s))"

text \<open>
  Modelled from the spec: \<^verbatim>\<open>pgstore.ConfirmParticipant\<close>, which is not among the sources
  (\<^verbatim>\<open>SetParticipantConfirmed\<close>: "read current state, reject if already confirmed, write
  atomically").
\<close>

definition pg_ConfirmParticipant :: "pg \<Rightarrow> uuid \<Rightarrow> store_error option \<times> pg" where
  "pg_ConfirmParticipant s participantID =
     (case find (\<lambda>p. Participant.ID p = participantID) (participant_rows s) of
        None \<Rightarrow> (Some ErrNoRows, s)
      | Some p \<Rightarrow>
          if Participant.IsConfirmed p then (Some (ErrOther ''participant already confirmed''), s)
          else (None,
                s\<lparr>participant_rows :=
                    map (\<lambda>p. if Participant.ID p = participantID
                              then p\<lparr>Participant.IsConfirmed := True\<rparr> else p)
                      (participant_rows s)\<rparr>))"

text \<open>
  Modelled from the spec: \<^verbatim>\<open>pgstore.CreateTrip\<close>, which is not among the sources
  (\<^verbatim>\<open>CreateTripAtomic\<close>): it "allocates a new Trip id, persists Trip in Draft, persists one
  Participant per invited email (is_confirmed=false) plus an implicit owner participant"
  (whose is_confirmed is "true immediately"), "all persisted atomically (all rows visible
  or none)", and returns the trip id. An identifier that is already the key of a row makes
  the create fail, with no row written ("a Trip's id is stable and globally unique").
\<close>

definition pg_CreateTrip :: "pg \<Rightarrow> CreateTripRequest \<Rightarrow> (store_error + uuid) \<times> pg" where
  "pg_CreateTrip s params =
     (let n = next_id s;
          emails = CreateTripRequest.EmailsToInvite params;
          tripID = new_uuid n;
          ownerID = new_uuid (n + 1);
          invitedIDs = map new_uuid [n + 2 ..< n + 2 + length emails];
          s1 = s\<lparr>next_id := n + 2 + length emails\<rparr>
      in if list_ex (\<lambda>t. Trip.ID t = tripID) (trip_rows s)
            \<or> \<not> distinct (ownerID # invitedIDs)
            \<or> list_ex (\<lambda>p. Participant.ID p \<in> set (ownerID # invitedIDs)) (participant_rows s)
         then (Inl (ErrOther ''duplicate key''), s1)
         else (Inr tripID,
               s1\<lparr>trip_rows := trip_rows s @
                     [\<lparr>Trip.ID = tripID,
                       Destination = CreateTripRequest.Destination params,
                       OwnerEmail = CreateTripRequest.OwnerEmail params,
                       OwnerName = CreateTripRequest.OwnerName params,
                       IsConfirmed = False,
                       StartsAt = \<lparr>Timestamp.Time = CreateTripRequest.StartsAt params, Valid = True\<rparr>,
                       EndsAt = \<lparr>Timestamp.Time = CreateTripRequest.EndsAt params, Valid = True\<rparr>\<rparr>],
                  participant_rows := participant_rows s @
                     \<lparr>Participant.ID = ownerID, TripID = tripID,
                      Email = CreateTripRequest.OwnerEmail params, IsConfirmed = True\<rparr> #
                     map (\<lambda>(i, email). \<lparr>Participant.ID = i, TripID = tripID,
                                          Email = email, IsConfirmed = False\<rparr>)
                       (zip invitedIDs emails)\<rparr>))"

text \<open>
  Modelled from the spec: \<^verbatim>\<open>pgstore.CreateActivity\<close>, which is not among the sources.
  "Activities reference an existing Trip id"; the activity gets a new identifier.
\<close>

definition pg_CreateActivity :: "pg \<Rightarrow> CreateActivityParams \<Rightarrow> (store_error + uuid) \<times> pg" where
  "pg_CreateActivity s arg =
     (let activityID = new_uuid (next_id s);
          s1 = s\<lparr>next_id := next_id s + 1\<rparr>
      in if \<not> list_ex (\<lambda>t. Trip.ID t = CreateActivityParams.TripID arg) (trip_rows s)
         then (Inl (ErrOther ''foreign key''), s1)
         else if list_ex (\<lambda>a. Activity.ID a = activityID) (activity_rows s)
         then (Inl (ErrOther ''duplicate key''), s1)
         else (Inr activityID,
               s1\<lparr>activity_rows := activity_rows s @
                     [\<lparr>Activity.ID = activityID,
                       TripID = CreateActivityParams.TripID arg,
                       Title = CreateActivityParams.Title arg,
                       OccursAt = CreateActivityParams.OccursAt arg\<rparr>]\<rparr>))"

definition pgstore :: "pg store" where
  "pgstore =
     \<lparr>CreateTrip = pg_CreateTrip,
      GetTrip = pg_GetTrip,
      GetAllTrips = pg_GetAllTrips,
      UpdateTrip = pg_UpdateTrip,
      GetParticipant = pg_GetParticipant,
      GetParticipants = pg_GetParticipants,
      ConfirmParticipant = pg_ConfirmParticipant,
      GetTripActivities = pg_GetTripActivities,
      CreateActivity = pg_CreateActivity\<rparr>"

text \<open>The primary keys: no two rows of a table have the same \<^verbatim>\<open>ID\<close>.\<close>

definition primary_keys :: "pg \<Rightarrow> bool" where
  "primary_keys s =
     (distinct (map Trip.ID (trip_rows s)) \<and>
      distinct (map Participant.ID (participant_rows s)) \<and>
      distinct (map Activity.ID (activity_rows s)))"

section \<open>The service as a transition system\<close>

text \<open>
  A request to one of the routes of \<^verbatim>\<open>ServerInterface\<close>, with the path parameter and the
  decoded body its handler is given. The three handlers that are
  \<^verbatim>\<open>panic("not implemented")\<close> panic.
\<close>

datatype request =
    PATCH_participants_confirm string
  | POST_trips "CreateTripRequest decoded"
  | GET_trips
  | GET_trip string
  | PUT_trip string "UpdateTripRequest decoded"
  | GET_trip_activities string
  | POST_trip_activities string "CreateActivityRequest decoded"
  | GET_trip_confirm string
  | POST_trip_invites string
  | GET_trip_links string
  | POST_trip_links string
  | GET_trip_participants string

definition responded :: "'s outcome \<Rightarrow> (panic + Response) \<times> 's \<times> string list" where
  "responded out = (case out of (r, s, msgs) \<Rightarrow> (Inr r, s, msgs))"

definition handle :: "'s API \<Rightarrow> 's \<Rightarrow> request \<Rightarrow> (panic + Response) \<times> 's \<times> string list" where
  "handle api s req =
     (case req of
        PATCH_participants_confirm participantID \<Rightarrow>
          responded (PatchParticipantsParticipantIDConfirm api s participantID)
      | POST_trips r \<Rightarrow> responded (PostTrips api s r)
      | GET_trips \<Rightarrow> responded (GetTrips api s)
      | GET_trip tripID \<Rightarrow> responded (GetTripsTripID api s tripID)
      | PUT_trip tripID r \<Rightarrow> responded (PutTripsTripID api s tripID r)
      | GET_trip_activities tripID \<Rightarrow> GetTripsTripIDActivities api s tripID
      | POST_trip_activities tripID r \<Rightarrow> responded (PostTripsTripIDActivities api s tripID r)
      | GET_trip_confirm tripID \<Rightarrow> responded (GetTripsTripIDConfirm api s tripID)
      | POST_trip_invites tripID \<Rightarrow> (Inl NotImplemented, s, [])
      | GET_trip_links tripID \<Rightarrow> (Inl NotImplemented, s, [])
      | POST_trip_links tripID \<Rightarrow> (Inl NotImplemented, s, [])
      | GET_trip_participants tripID \<Rightarrow> responded (GetTripsTripIDParticipants api s tripID))"

text \<open>The storage states the service reaches from the empty storage, one request after another.\<close>

inductive reachable :: "pg API \<Rightarrow> pg \<Rightarrow> bool" for api :: "pg API" where
  reachable_empty: "reachable api empty_pg"
| reachable_handle: "reachable api s \<Longrightarrow> handle api s req = (r, s', msgs) \<Longrightarrow> reachable api s'"

text \<open>
  No confirmation is taken back between two states: every row of the first state is
  still there, at its place and with its \<^verbatim>\<open>ID\<close>, and is confirmed if it was.
\<close>

definition confirmations_kept :: "pg \<Rightarrow> pg \<Rightarrow> bool" where
  "confirmations_kept s s' =
     (length (trip_rows s) \<le> length (trip_rows s') \<and>
      length (participant_rows s) \<le> length (participant_rows s') \<and>
      (\<forall>i < length (trip_rows s).
         Trip.ID (trip_rows s' ! i) = Trip.ID (trip_rows s ! i) \<and>
         (Trip.IsConfirmed (trip_rows s ! i) \<longrightarrow> Trip.IsConfirmed (trip_rows s' ! i))) \<and>
      (\<forall>i < length (participant_rows s).
         Participant.ID (participant_rows s' ! i) = Participant.ID (participant_rows s ! i) \<and>
         (Participant.IsConfirmed (participant_rows s ! i) \<longrightarrow>
            Participant.IsConfirmed (participant_rows s' ! i))))"

section \<open>Two overlapping calls of \<^verbatim>\<open>GetTripsTripIDConfirm\<close>\<close>

text \<open>
  The handler makes two calls of the store, \<^verbatim>\<open>GetTrip\<close> and \<^verbatim>\<open>UpdateTrip\<close>, and keeps the
  trip it read in a local variable between them. A call of the handler is: called with
  its path parameter; or past \<^verbatim>\<open>GetTrip\<close>, holding \<^verbatim>\<open>id\<close> and \<^verbatim>\<open>trip\<close>; or returned.
\<close>

datatype confirm_call = Called string | Read uuid Trip | Returned Response

text \<open>
  One step of a call takes it to its next call of the store, or to its return: from the
  start through \<^verbatim>\<open>GetTrip\<close>; from there through the check of \<^verbatim>\<open>trip.IsConfirmed\<close> and
  \<^verbatim>\<open>UpdateTrip\<close> to the response.
\<close>

definition confirm_step :: "'s API \<Rightarrow> 's \<Rightarrow> confirm_call \<Rightarrow> confirm_call \<times> 's" where
  "confirm_step api s c =
     (case c of
        Called tripID \<Rightarrow>
          (case uuid_Parse api tripID of
             None \<Rightarrow> (Returned (JSONResponse 400 (Error ''Invalid trip ID'')), s)
           | Some id' \<Rightarrow>
               (case GetTrip (store api) s id' of
                  Inl err \<Rightarrow>
                    if err = ErrNoRows
                    then (Returned (JSONResponse 400 (Error ''Trip not found'')), s)
                    else (Returned (JSONResponse 400 (Error ''Something went wrong, try again'')), s)
                | Inr trip \<Rightarrow> (Read id' trip, s)))
      | Read id' trip \<Rightarrow>
          if Trip.IsConfirmed trip
          then (Returned (JSONResponse 400 (Error ''Trip already confirmed'')), s)
          else (case UpdateTrip (store api) s
                       \<lparr>UpdateTripParams.ID = id',
                        Destination = Trip.Destination trip,
                        EndsAt = Trip.EndsAt trip,
                        StartsAt = Trip.StartsAt trip,
                        IsConfirmed = True\<rparr> of
                  (Some err, s') \<Rightarrow>
                    (Returned (JSONResponse 400 (Error ''Something went wrong, try again'')), s')
                | (None, s') \<Rightarrow> (Returned (JSONResponse 204 nil), s'))
      | Returned r \<Rightarrow> (Returned r, s))"

text \<open>
  Two calls \<open>a\<close> and \<open>b\<close> on one storage, under a schedule: at \<open>True\<close> the first call
  takes a step, at \<open>False\<close> the second.
\<close>

fun run_two :: "'s API \<Rightarrow> bool list \<Rightarrow> confirm_call \<times> confirm_call \<times> 's \<Rightarrow> confirm_call \<times> confirm_call \<times> 's" where
  "run_two api [] st = st"
| "run_two api (first # schedule) (a, b, s) =
     (if first
      then (case confirm_step api s a of (a', s') \<Rightarrow> run_two api schedule (a', b, s'))
      else (case confirm_step api s b of (b', s') \<Rightarrow> run_two api schedule (a, b', s')))"

section \<open>Auxiliary notions of the proofs\<close>

definition item_date :: "DateItem \<Rightarrow> int \<times> int \<times> int" where
  "item_date item = Time_Date (DateItem.Time item)"

definition items_ok :: "DateItem list \<Rightarrow> bool" where
  "items_ok dd = (\<forall>item\<in>set dd. DateItem.Time item = midnight_UTC (item_date item) \<and> 0 \<le> Amount item)"

definition bucket_of :: "(uuid \<Rightarrow> string) \<Rightarrow> Activity list \<Rightarrow> DateItem \<Rightarrow> GetTripActivitiesResponseOuterArray" where
  "bucket_of String activities item =
     \<lparr>Activities = activities_of_date String activities item, Date = DateItem.Time item\<rparr>"

definition first_index :: "'a \<Rightarrow> 'a list \<Rightarrow> nat" where
  "first_index k xs = length (takeWhile (\<lambda>y. y \<noteq> k) xs)"

section \<open>Examples\<close>

text \<open>Three activities, on 2024-01-03, 2024-01-01 and 2024-01-03 in that order.\<close>

definition activity_at :: "uuid \<Rightarrow> string \<Rightarrow> int \<times> int \<times> int \<Rightarrow> int \<Rightarrow> Activity" where
  "activity_at i title ymd h =
     (case ymd of (y, m, d) \<Rightarrow>
        \<lparr>Activity.ID = i, TripID = 1, Title = title,
         OccursAt = \<lparr>Timestamp.Time = time_Date y m d h 30 0 0 UTC, Valid = True\<rparr>\<rparr>)"

definition three_activities :: "Activity list" where
  "three_activities =
     [activity_at 1 ''museum'' (2024, 1, 3) 9,
      activity_at 2 ''arrival'' (2024, 1, 1) 18,
      activity_at 3 ''dinner'' (2024, 1, 3) 20]"

definition short_String :: "uuid \<Rightarrow> string" where
  "short_String u =
     (if u = 0 then ''a0'' else if u = 1 then ''a1'' else if u = 2 then ''a2''
      else if u = 3 then ''a3'' else ''a'')"

section \<open>Properties of the activity aggregation\<close>

lemma Time_Date_time_Date: "Time_Date (time_Date y m d h mi s ns l) = (y, m, d)"
  by (simp add: Time_Date_def time_Date_def)

lemma same_date_iff: "same_date a b = (Time_Date a = Time_Date b)"
  by (auto simp: same_date_def split: prod.splits)


lemma collect_date_dates:
  "map item_date (fst (collect_date a (dd, q))) =
     (if activity_date a \<in> set (map item_date dd) then map item_date dd
      else map item_date dd @ [activity_date a])"
  by (force simp: collect_date_def list_ex_iff same_date_iff item_date_def activity_date_def
        Time_Date_time_Date image_iff split: prod.splits)

lemma set_first_seen: "set (first_seen xs) = set xs"
  by (induction xs rule: first_seen.induct) auto

lemma distinct_first_seen: "distinct (first_seen xs)"
  by (induction xs rule: first_seen.induct) (auto simp: set_first_seen)

lemma collect_dates_dates:
  "map item_date (fst (collect_dates as (dd, q))) =
     map item_date dd @ first_seen (filter (\<lambda>k. k \<notin> set (map item_date dd)) (map activity_date as))"
proof (induction as arbitrary: dd q)
  case Nil show ?case by simp
next
  case (Cons a as)
  obtain dd' q' where st: "collect_date a (dd, q) = (dd', q')" by (cases "collect_date a (dd, q)")
  have d: "map item_date dd' = (if activity_date a \<in> set (map item_date dd) then map item_date dd
      else map item_date dd @ [activity_date a])"
    using collect_date_dates[of a dd q] st by simp
  show ?case
  proof (cases "activity_date a \<in> set (map item_date dd)")
    case True
    with d Cons.IH[of dd' q'] st show ?thesis by simp
  next
    case False
    have "filter (\<lambda>k. k \<notin> set (map item_date dd')) (map activity_date as)
        = filter (\<lambda>y. y \<noteq> activity_date a) (filter (\<lambda>k. k \<notin> set (map item_date dd)) (map activity_date as))"
      using d False by (auto intro: filter_cong)
    with d False Cons.IH[of dd' q'] st show ?thesis by simp
  qed
qed



lemma collect_date_ok: "items_ok dd \<Longrightarrow> items_ok (fst (collect_date a (dd, q)))"
  by (auto simp: collect_date_def items_ok_def item_date_def midnight_UTC_def Time_Date_time_Date
        split: prod.splits)

lemma collect_date_qtd:
  "snd (collect_date a (dd, q)) - int (length (fst (collect_date a (dd, q)))) = q - int (length dd)"
  by (auto simp: collect_date_def split: prod.splits)

lemma collect_dates_ok: "items_ok dd \<Longrightarrow> items_ok (fst (collect_dates as (dd, q)))"
proof (induction as arbitrary: dd q)
  case Nil then show ?case by simp
next
  case (Cons a as)
  obtain dd' q' where st: "collect_date a (dd, q) = (dd', q')" by (cases "collect_date a (dd, q)")
  with collect_date_ok[OF Cons.prems, of a q] have "items_ok dd'" by simp
  from Cons.IH[OF this, of q'] st show ?case by simp
qed

lemma collect_dates_qtd:
  "snd (collect_dates as (dd, q)) - int (length (fst (collect_dates as (dd, q)))) = q - int (length dd)"
proof (induction as arbitrary: dd q)
  case Nil show ?case by simp
next
  case (Cons a as)
  obtain dd' q' where st: "collect_date a (dd, q) = (dd', q')" by (cases "collect_date a (dd, q)")
  with collect_date_qtd[of a dd q] have "q' - int (length dd') = q - int (length dd)" by simp
  with Cons.IH[of dd' q'] st show ?case by simp
qed


lemma fill_response_map:
  "i + length items = length resp \<Longrightarrow> \<forall>item\<in>set items. 0 \<le> Amount item \<Longrightarrow>
   fill_response String activities i items resp = Inr (take i resp @ map (bucket_of String activities) items)"
proof (induction items arbitrary: i resp)
  case Nil then show ?case by simp
next
  case (Cons item items)
  let ?resp = "resp[i := bucket_of String activities item]"
  from Cons.prems have i: "i < length resp" by simp
  have "fill_response String activities (Suc i) items ?resp
      = Inr (take (Suc i) ?resp @ map (bucket_of String activities) items)"
    using Cons.prems by (intro Cons.IH) auto
  moreover have "take (Suc i) ?resp = take i resp @ [bucket_of String activities item]"
    using i by (simp add: take_Suc_conv_app_nth)
  ultimately show ?case using Cons.prems i by (simp add: bucket_of_def)
qed

lemma bucket_of_spec:
  "DateItem.Time item = midnight_UTC (item_date item) \<Longrightarrow>
   bucket_of String activities item =
     \<lparr>Activities = map (inner_response String)
                      (filter (\<lambda>activity. activity_date activity = item_date item) activities),
      Date = midnight_UTC (item_date item)\<rparr>"
  by (auto simp: bucket_of_def activities_of_date_def same_date_iff item_date_def activity_date_def
        eq_commute intro: filter_cong)

lemma aggregate_activities_spec:
  "aggregate_activities String activities = Inr (day_buckets_spec String activities)"
proof -
  obtain dd q where st: "collect_dates activities ([], 0) = (dd, q)"
    by (cases "collect_dates activities ([], 0)")
  have ok: "items_ok dd" using collect_dates_ok[of "[]" activities 0] st by (simp add: items_ok_def)
  have q: "q = int (length dd)" using collect_dates_qtd[of activities "[]" 0] st by simp
  have dates: "map item_date dd = first_seen (map activity_date activities)"
    using collect_dates_dates[of activities "[]" 0] st by simp
  have "fill_response String activities 0 dd (replicate (nat q) zero_OuterArray)
      = Inr (take 0 (replicate (nat q) zero_OuterArray) @ map (bucket_of String activities) dd)"
    using ok q by (intro fill_response_map) (auto simp: items_ok_def)
  moreover have "map (bucket_of String activities) dd = day_buckets_spec String activities"
  proof -
    have "map (bucket_of String activities) dd =
          map ((\<lambda>ymd. \<lparr>Activities = map (inner_response String)
                                 (filter (\<lambda>activity. activity_date activity = ymd) activities),
                  Date = midnight_UTC ymd\<rparr>) \<circ> item_date) dd"
      using ok by (intro map_cong) (auto simp: items_ok_def bucket_of_spec)
    also have "\<dots> = day_buckets_spec String activities"
      unfolding day_buckets_spec_def dates[symmetric] by (simp add: comp_def)
    finally show ?thesis .
  qed
  ultimately show ?thesis using st q by (simp add: aggregate_activities_def)
qed




lemma first_index_filter:
  "P k1 \<Longrightarrow> P k2 \<Longrightarrow>
   (first_index k1 (filter P xs) < first_index k2 (filter P xs)) = (first_index k1 xs < first_index k2 xs)"
  by (induction xs) (auto simp: first_index_def)

lemma first_index_less: "k \<in> set xs \<Longrightarrow> first_index k xs < length xs"
  unfolding first_index_def by (induction xs) auto

lemma first_index_Cons:
  "first_index k (x # xs) = (if x = k then 0 else Suc (first_index k xs))"
  by (simp add: first_index_def)

lemma sorted_first_seen: "sorted_wrt (<) (map (\<lambda>k. first_index k xs) (first_seen xs))"
proof (induction xs rule: first_seen.induct)
  case 1 show ?case by simp
next
  case (2 x xs)
  let ?F = "filter (\<lambda>y. y \<noteq> x) xs"
  let ?L = "first_seen ?F"
  have neq: "\<And>k. k \<in> set ?L \<Longrightarrow> k \<noteq> x" by (auto simp: set_first_seen)
  from 2 have "sorted_wrt (\<lambda>a b. first_index a ?F < first_index b ?F) ?L"
    by (simp only: sorted_wrt_map)
  then have "sorted_wrt (\<lambda>a b. first_index a (x # xs) < first_index b (x # xs)) ?L"
  proof (rule sorted_wrt_mono_rel[rotated])
    fix a b assume a: "a \<in> set ?L" and b: "b \<in> set ?L"
      and lt: "first_index a ?F < first_index b ?F"
    have ab: "a \<noteq> x" "b \<noteq> x" by (rule neq[OF a], rule neq[OF b])
    then have "first_index a xs < first_index b xs"
      using lt first_index_filter[of "\<lambda>y. y \<noteq> x" a b xs] by blast
    with ab show "first_index a (x # xs) < first_index b (x # xs)"
      by (simp add: first_index_Cons)
  qed
  then have tl: "sorted_wrt (<) (map (\<lambda>k. first_index k (x # xs)) ?L)"
    by (simp only: sorted_wrt_map)
  have hd: "\<forall>k\<in>set ?L. first_index x (x # xs) < first_index k (x # xs)"
  proof
    fix k assume "k \<in> set ?L"
    from neq[OF this] show "first_index x (x # xs) < first_index k (x # xs)"
      by (simp add: first_index_Cons)
  qed
  have "first_seen (x # xs) = x # ?L" by simp
  with tl hd show ?case by (simp del: first_seen.simps)
qed

lemma first_position_index:
  "first_position activities ymd = first_index ymd (map activity_date activities)"
  by (simp add: first_position_def first_index_def takeWhile_map comp_def)

lemma Time_Date_midnight_UTC: "Time_Date (midnight_UTC ymd) = ymd"
  by (cases ymd) (simp add: midnight_UTC_def Time_Date_time_Date)

lemma day_buckets_spec_dates:
  "map (\<lambda>b. Time_Date (Date b)) (day_buckets_spec String activities) = first_seen (map activity_date activities)"
  by (simp add: day_buckets_spec_def comp_def Time_Date_midnight_UTC)

lemma mset_filter_split:
  "d \<notin> set ds \<Longrightarrow>
   mset (filter (\<lambda>a. f a = d) xs) + mset (filter (\<lambda>a. f a \<in> set ds) xs) =
   mset (filter (\<lambda>a. f a = d \<or> f a \<in> set ds) xs)"
  by (induction xs) auto

lemma mset_concat_filters:
  "distinct ds \<Longrightarrow>
   mset (concat (map (\<lambda>d. filter (\<lambda>a. f a = d) xs) ds)) = mset (filter (\<lambda>a. f a \<in> set ds) xs)"
proof (induction ds)
  case Nil show ?case by simp
next
  case (Cons d ds)
  then show ?case using mset_filter_split[of d ds f xs] by simp
qed

lemma day_buckets_spec_mset:
  "mset (concat (map Activities (day_buckets_spec String activities))) =
   mset (map (inner_response String) activities)"
proof -
  let ?ds = "first_seen (map activity_date activities)"
  have "concat (map Activities (day_buckets_spec String activities)) =
        map (inner_response String) (concat (map (\<lambda>d. filter (\<lambda>a. activity_date a = d) activities) ?ds))"
    by (simp add: day_buckets_spec_def comp_def map_concat)
  moreover have "mset (concat (map (\<lambda>d. filter (\<lambda>a. activity_date a = d) activities) ?ds)) = mset activities"
    using mset_concat_filters[OF distinct_first_seen, of activity_date activities "map activity_date activities"]
    by (simp add: set_first_seen)
  ultimately show ?thesis by (metis mset_map)
qed

lemma aggregate_activities_order:
  "\<exists>out. aggregate_activities String activities = Inr out
     \<and> map (\<lambda>b. Time_Date (Date b)) out = first_seen (map activity_date activities)
     \<and> sorted_wrt (<) (map (\<lambda>b. first_position activities (Time_Date (Date b))) out)
     \<and> list_all (\<lambda>b. first_position activities (Time_Date (Date b)) < length activities) out"
proof -
  let ?out = "day_buckets_spec String activities"
  let ?ds = "first_seen (map activity_date activities)"
  have dates: "map (\<lambda>b. Time_Date (Date b)) ?out = ?ds" by (rule day_buckets_spec_dates)
  have "map (\<lambda>b. first_position activities (Time_Date (Date b))) ?out
      = map (\<lambda>k. first_index k (map activity_date activities)) (map (\<lambda>b. Time_Date (Date b)) ?out)"
    by (simp add: first_position_index comp_def)
  then have s: "sorted_wrt (<) (map (\<lambda>b. first_position activities (Time_Date (Date b))) ?out)"
    using sorted_first_seen[of "map activity_date activities"] dates by simp
  have "\<forall>b\<in>set ?out. first_position activities (Time_Date (Date b)) < length activities"
  proof
    fix b assume "b \<in> set ?out"
    then have "Time_Date (Date b) \<in> set (map (\<lambda>b. Time_Date (Date b)) ?out)" by simp
    then have "Time_Date (Date b) \<in> set (map activity_date activities)"
      unfolding dates by (simp add: set_first_seen)
    from first_index_less[OF this] show "first_position activities (Time_Date (Date b)) < length activities"
      by (simp add: first_position_index)
  qed
  then have l: "list_all (\<lambda>b. first_position activities (Time_Date (Date b)) < length activities) ?out"
    unfolding list_all_iff .
  show ?thesis
    by (intro exI[of _ ?out] conjI) (rule aggregate_activities_spec dates s l)+
qed

lemma short_String_simps:
  "short_String 0 = ''a0''" "short_String 1 = ''a1''" "short_String 2 = ''a2''" "short_String 3 = ''a3''"
  by (simp_all add: short_String_def)

lemma three_eval:
  "aggregate_activities short_String three_activities =
     Inr [\<lparr>Activities = [\<lparr>GetTripActivitiesResponseInnerArray.ID = ''a1'', OccursAt = time_Date 2024 1 3 9 30 0 0 UTC, Title = ''museum''\<rparr>,
                          \<lparr>GetTripActivitiesResponseInnerArray.ID = ''a3'', OccursAt = time_Date 2024 1 3 20 30 0 0 UTC, Title = ''dinner''\<rparr>],
           Date = time_Date 2024 1 3 0 0 0 0 UTC\<rparr>,
          \<lparr>Activities = [\<lparr>GetTripActivitiesResponseInnerArray.ID = ''a2'', OccursAt = time_Date 2024 1 1 18 30 0 0 UTC, Title = ''arrival''\<rparr>],
           Date = time_Date 2024 1 1 0 0 0 0 UTC\<rparr>]"
  by (simp add: aggregate_activities_def three_activities_def activity_at_def collect_date_def
        same_date_def Time_Date_def time_Date_def short_String_simps activities_of_date_def
        inner_response_def zero_OuterArray_def zero_Time_def numeral_2_eq_2)

text \<open>
  C3. The aggregation is a partition of its input. For every list of activities it
  returns buckets (it does not panic) such that: the activities of all buckets together
  are the activities of the input, each as often as it is there; no two buckets have the
  same calendar date; each bucket holds exactly the activities of the input whose
  \<^verbatim>\<open>OccursAt\<close> has the year, month and day of the bucket's date, in their order in the
  input, and is not empty; the bucket's date is at 00:00:00.0 UTC; and every activity of
  the input has exactly one bucket of its year, month and day.
\<close>

theorem aggregate_activities_partition:
  "\<exists>out. aggregate_activities String activities = Inr out
     \<and> mset (concat (map Activities out)) = mset (map (inner_response String) activities)
     \<and> distinct (map (\<lambda>b. Time_Date (Date b)) out)
     \<and> (\<forall>b\<in>set out.
           Activities b = map (inner_response String)
                            (filter (\<lambda>a. activity_date a = Time_Date (Date b)) activities)
         \<and> Activities b \<noteq> []
         \<and> hour (Date b) = 0 \<and> minute (Date b) = 0 \<and> second (Date b) = 0 \<and> nsec (Date b) = 0
         \<and> loc (Date b) = UTC)
     \<and> (\<forall>a\<in>set activities. \<exists>!i. i < length out \<and> Time_Date (Date (out ! i)) = activity_date a)"
proof -
  let ?out = "day_buckets_spec String activities"
  let ?ds = "first_seen (map activity_date activities)"
  have dates: "map (\<lambda>b. Time_Date (Date b)) ?out = ?ds" by (rule day_buckets_spec_dates)
  have len: "length ?out = length ?ds" by (simp add: day_buckets_spec_def)
  have nth: "\<And>i. i < length ?out \<Longrightarrow> Time_Date (Date (?out ! i)) = ?ds ! i"
    using dates by (metis length_map nth_map)
  have buckets: "\<forall>b\<in>set ?out.
           Activities b = map (inner_response String)
                            (filter (\<lambda>a. activity_date a = Time_Date (Date b)) activities)
         \<and> Activities b \<noteq> []
         \<and> hour (Date b) = 0 \<and> minute (Date b) = 0 \<and> second (Date b) = 0 \<and> nsec (Date b) = 0
         \<and> loc (Date b) = UTC"
  proof
    fix b assume "b \<in> set ?out"
    then obtain ymd where ymd: "ymd \<in> set ?ds"
      and b: "b = \<lparr>Activities = map (inner_response String)
                                 (filter (\<lambda>activity. activity_date activity = ymd) activities),
                  Date = midnight_UTC ymd\<rparr>"
      by (auto simp: day_buckets_spec_def)
    from ymd have "ymd \<in> activity_date ` set activities" by (simp add: set_first_seen)
    then have "filter (\<lambda>activity. activity_date activity = ymd) activities \<noteq> []"
      by (auto simp: filter_empty_conv)
    with b show "Activities b = map (inner_response String)
                            (filter (\<lambda>a. activity_date a = Time_Date (Date b)) activities)
         \<and> Activities b \<noteq> []
         \<and> hour (Date b) = 0 \<and> minute (Date b) = 0 \<and> second (Date b) = 0 \<and> nsec (Date b) = 0
         \<and> loc (Date b) = UTC"
      by (cases ymd) (simp add: Time_Date_midnight_UTC, simp add: midnight_UTC_def time_Date_def)
  qed
  have uniq: "\<forall>a\<in>set activities. \<exists>!i. i < length ?out \<and> Time_Date (Date (?out ! i)) = activity_date a"
  proof
    fix a assume "a \<in> set activities"
    then have "activity_date a \<in> set ?ds" by (simp add: set_first_seen)
    from distinct_Ex1[OF distinct_first_seen this]
    have "\<exists>!i. i < length ?ds \<and> ?ds ! i = activity_date a" .
    then show "\<exists>!i. i < length ?out \<and> Time_Date (Date (?out ! i)) = activity_date a"
      using nth len by (metis (no_types, lifting))
  qed
  have dist: "distinct (map (\<lambda>b. Time_Date (Date b)) ?out)"
    unfolding dates by (rule distinct_first_seen)
  show ?thesis
    by (intro exI[of _ ?out] conjI)
       (rule aggregate_activities_spec day_buckets_spec_mset dist buckets uniq)+
qed

theorem aggregate_activities_partition_witness:
  "\<exists>out. aggregate_activities short_String three_activities = Inr out
     \<and> map (\<lambda>b. Time_Date (Date b)) out = [(2024, 1, 3), (2024, 1, 1)]
     \<and> map (\<lambda>b. map GetTripActivitiesResponseInnerArray.ID (Activities b)) out = [[''a1'', ''a3''], [''a2'']]
     \<and> mset (concat (map Activities out)) = mset (map (inner_response short_String) three_activities)
     \<and> distinct (map (\<lambda>b. Time_Date (Date b)) out)
     \<and> (\<exists>!i. i < length out \<and> Time_Date (Date (out ! i)) = (2024, 1, 1))"
proof -
  from aggregate_activities_partition[of short_String three_activities]
  obtain out where out: "aggregate_activities short_String three_activities = Inr out"
    and m: "mset (concat (map Activities out)) = mset (map (inner_response short_String) three_activities)"
    and d: "distinct (map (\<lambda>b. Time_Date (Date b)) out)"
    and u: "\<forall>a\<in>set three_activities. \<exists>!i. i < length out \<and> Time_Date (Date (out ! i)) = activity_date a"
    by blast
  have e1: "map (\<lambda>b. Time_Date (Date b)) out = [(2024, 1, 3), (2024, 1, 1)]"
    using out three_eval by (auto simp: Time_Date_def time_Date_def)
  have e2: "map (\<lambda>b. map GetTripActivitiesResponseInnerArray.ID (Activities b)) out = [[''a1'', ''a3''], [''a2'']]"
    using out three_eval by auto
  have "activity_at 2 ''arrival'' (2024, 1, 1) 18 \<in> set three_activities"
    by (simp add: three_activities_def)
  with u have "\<exists>!i. i < length out \<and> Time_Date (Date (out ! i)) = activity_date (activity_at 2 ''arrival'' (2024, 1, 1) 18)"
    by blast
  then have e3: "\<exists>!i. i < length out \<and> Time_Date (Date (out ! i)) = (2024, 1, 1)"
    by (simp add: activity_date_def activity_at_def Time_Date_def time_Date_def)
  show ?thesis by (intro exI[of _ out] conjI) (rule out e1 e2 m d e3)+
qed

text \<open>
  C4. The buckets are in the order in which their dates first occur in the input, not in
  chronological order: the dates of the buckets are the distinct dates of the input in
  first-occurrence order, so the positions of their first activities in the input are
  strictly increasing. Three activities dated 2024-01-03, 2024-01-01 and 2024-01-03 give
  the bucket of 2024-01-03 with the first and the third activity, in that order, and
  then the bucket of 2024-01-01 with the second.
\<close>

theorem aggregate_activities_first_seen_order:
  "(\<exists>out. aggregate_activities String activities = Inr out
      \<and> map (\<lambda>b. Time_Date (Date b)) out = first_seen (map activity_date activities)
      \<and> sorted_wrt (<) (map (\<lambda>b. first_position activities (Time_Date (Date b))) out)
      \<and> list_all (\<lambda>b. first_position activities (Time_Date (Date b)) < length activities) out)
   \<and> (activity_date a1 = (2024, 1, 3) \<and> activity_date a2 = (2024, 1, 1) \<and> activity_date a3 = (2024, 1, 3)
        \<longrightarrow> aggregate_activities String [a1, a2, a3] =
              Inr [\<lparr>Activities = [inner_response String a1, inner_response String a3],
                    Date = time_Date 2024 1 3 0 0 0 0 UTC\<rparr>,
                   \<lparr>Activities = [inner_response String a2],
                    Date = time_Date 2024 1 1 0 0 0 0 UTC\<rparr>])"
proof (intro conjI impI)
  show "\<exists>out. aggregate_activities String activities = Inr out
      \<and> map (\<lambda>b. Time_Date (Date b)) out = first_seen (map activity_date activities)
      \<and> sorted_wrt (<) (map (\<lambda>b. first_position activities (Time_Date (Date b))) out)
      \<and> list_all (\<lambda>b. first_position activities (Time_Date (Date b)) < length activities) out"
    by (rule aggregate_activities_order)
next
  assume "activity_date a1 = (2024, 1, 3) \<and> activity_date a2 = (2024, 1, 1) \<and> activity_date a3 = (2024, 1, 3)"
  then show "aggregate_activities String [a1, a2, a3] =
              Inr [\<lparr>Activities = [inner_response String a1, inner_response String a3],
                    Date = time_Date 2024 1 3 0 0 0 0 UTC\<rparr>,
                   \<lparr>Activities = [inner_response String a2],
                    Date = time_Date 2024 1 1 0 0 0 0 UTC\<rparr>]"
    by (simp add: aggregate_activities_spec day_buckets_spec_def midnight_UTC_def)
qed

theorem aggregate_activities_first_seen_order_witness:
  "map (\<lambda>b. Time_Date (Date b)) (projr (aggregate_activities short_String three_activities))
     = [(2024, 1, 3), (2024, 1, 1)]
   \<and> map (\<lambda>b. first_position three_activities (Time_Date (Date b)))
        (projr (aggregate_activities short_String three_activities)) = [0, 1]
   \<and> map (\<lambda>b. map GetTripActivitiesResponseInnerArray.Title (Activities b))
        (projr (aggregate_activities short_String three_activities)) = [[''museum'', ''dinner''], [''arrival'']]"
  using aggregate_activities_first_seen_order[of short_String three_activities
      "activity_at 1 ''museum'' (2024, 1, 3) 9" "activity_at 2 ''arrival'' (2024, 1, 1) 18"
      "activity_at 3 ''dinner'' (2024, 1, 3) 20"]
  by (simp add: three_activities_def activity_date_def activity_at_def Time_Date_def time_Date_def
        first_position_def inner_response_def)

end
